theory Spec2Isabelle
  imports Complex_Main
begin

section \<open>JSON values as Python sees them\<close>

text \<open>
  \<^verbatim>\<open>Json = Dict[str, Any]\<close> and \<^verbatim>\<open>JsonElement\<close> of \<^verbatim>\<open>resotocore.types\<close>. A Python dict
  keeps its keys in insertion order and holds every key once, so an object is an association
  list whose keys are expected to be distinct (\<open>wf_json\<close>). Floats are reals: NaN and the
  infinities are not JSON.
\<close>

datatype json =
    JNull
  | JBool bool
  | JInt int
  | JFloat real
  | JStr string
  | JList "json list"
  | JDict "(string \<times> json) list"

type_synonym dict = "(string \<times> json) list"

text \<open>Python truthiness, as \<^verbatim>\<open>elif right_value:\<close> and \<^verbatim>\<open>coerced or value\<close> test it.\<close>

fun truthy :: "json \<Rightarrow> bool" where
  "truthy JNull = False"
| "truthy (JBool b) = b"
| "truthy (JInt i) = (i \<noteq> 0)"
| "truthy (JFloat r) = (r \<noteq> 0)"
| "truthy (JStr s) = (s \<noteq> [])"
| "truthy (JList xs) = (xs \<noteq> [])"
| "truthy (JDict d) = (d \<noteq> [])"

text \<open>\<^verbatim>\<open>d.get(k)\<close>: the value, or \<^verbatim>\<open>None\<close> when the key is absent.\<close>

definition dict_get :: "dict \<Rightarrow> string \<Rightarrow> json" where
  "dict_get d k = (case map_of d k of None \<Rightarrow> JNull | Some v \<Rightarrow> v)"

text \<open>\<^verbatim>\<open>k in d\<close>\<close>

definition dict_has :: "dict \<Rightarrow> string \<Rightarrow> bool" where
  "dict_has d k = (map_of d k \<noteq> None)"

text \<open>\<^verbatim>\<open>d[k] = v\<close>: an existing key keeps its place, a new key goes last.\<close>

fun dict_set :: "dict \<Rightarrow> string \<Rightarrow> json \<Rightarrow> dict" where
  "dict_set [] k v = [(k, v)]"
| "dict_set ((k', v') # d) k v = (if k' = k then (k, v) # d else (k', v') # dict_set d k v)"

text \<open>\<^verbatim>\<open>{**left, **right}\<close>\<close>

definition dict_union :: "dict \<Rightarrow> dict \<Rightarrow> dict" where
  "dict_union left right = fold (\<lambda>(k, v) d. dict_set d k v) right left"

fun as_dict :: "json \<Rightarrow> dict" where
  "as_dict (JDict d) = d"
| "as_dict _ = []"

fun wf_json :: "json \<Rightarrow> bool" where
  "wf_json (JList xs) = list_all wf_json xs"
| "wf_json (JDict d) = (distinct (map fst d) \<and> list_all (\<lambda>(k, v). wf_json v) d)"
| "wf_json _ = True"

lemma size_map_of:
  "map_of d k = Some v \<Longrightarrow> size v < Suc (size_list (size_prod (\<lambda>_. 0) size) d)"
  by (induction d) (auto split: if_splits)

lemma size_dict_get: "dict_get d k = JDict r \<Longrightarrow> size (JDict r) < size (JDict d)"
  by (auto simp: dict_get_def split: option.splits dest: size_map_of)

lemma size_zip_left: "(x, y) \<in> set (zip xs ys) \<Longrightarrow> size x < Suc (size_list size xs)"
  by (auto dest!: set_zip_leftD simp: less_Suc_eq_le size_list_estimation')

lemma size_dict_mem:
  "(k, v) \<in> set d \<Longrightarrow> size v < Suc (size_list (size_prod (\<lambda>_. 0) size) d)"
  by (induction d) auto

text \<open>
  Python's \<^verbatim>\<open>==\<close> on JSON values: \<^verbatim>\<open>bool\<close> is a subclass of \<^verbatim>\<open>int\<close> and numbers compare
  by value (\<^verbatim>\<open>True == 1 == 1.0\<close>), lists compare element by element, dicts compare as maps
  (same length, every key of the left in the right with an equal value), whatever the order
  of their keys.
\<close>

fun num_of :: "json \<Rightarrow> real option" where
  "num_of (JBool b) = Some (if b then 1 else 0)"
| "num_of (JInt i) = Some (of_int i)"
| "num_of (JFloat r) = Some r"
| "num_of _ = None"

function (sequential) py_eq :: "json \<Rightarrow> json \<Rightarrow> bool" where
  "py_eq JNull JNull = True"
| "py_eq (JStr s) (JStr t) = (s = t)"
| "py_eq (JList xs) (JList ys) =
     (length xs = length ys \<and> list_all (\<lambda>(x, y). py_eq x y) (zip xs ys))"
| "py_eq (JDict l) (JDict r) =
     (length l = length r \<and>
      list_all (\<lambda>(k, v). case map_of r k of None \<Rightarrow> False | Some w \<Rightarrow> py_eq v w) l)"
| "py_eq a b = (case (num_of a, num_of b) of (Some x, Some y) \<Rightarrow> x = y | _ \<Rightarrow> False)"
  by pat_completeness auto
termination
  by (relation "measure (\<lambda>(a, b). size a)") (auto dest: size_zip_left size_dict_mem)


section \<open>resotocore/util.py\<close>

subsection \<open>deep_merge\<close>

text \<open>
  \<^verbatim>\<open>
  def deep_merge(left: Json, right: Json) -> Json:
      def merge(key: str) -> JsonElement:
          left_value: JsonElement = left.get(key)
          right_value: JsonElement = right.get(key)
          if isinstance(right_value, dict):
              left_value = left_value if isinstance(left_value, dict) else {}
              return deep_merge(left_value, right_value)
          elif right_value:
              return right_value
          else:
              return left_value
      return {k: merge(k) for k in set(left.keys()).union(right.keys())}
  \<close>
  The comprehension runs over a Python set, whose iteration order is not specified. The model
  lists the keys that only \<open>left\<close> has and then the keys of \<open>right\<close>; the statements about
  \<open>deep_merge\<close> below go through lookups and \<open>py_eq\<close>, which do not see the order.
\<close>

definition union_keys :: "dict \<Rightarrow> dict \<Rightarrow> string list" where
  "union_keys left right = remdups (map fst left @ map fst right)"

function deep_merge :: "dict \<Rightarrow> dict \<Rightarrow> dict" where
  "deep_merge left right =
     map (\<lambda>k. (k, case dict_get right k of
                     JDict right_value \<Rightarrow>
                       JDict (deep_merge (as_dict (dict_get left k)) right_value)
                   | right_value \<Rightarrow>
                       if truthy right_value then right_value else dict_get left k))
         (union_keys left right)"
  by pat_completeness auto
termination
  by (relation "measure (\<lambda>(l, r). size (JDict r))") (auto dest: size_dict_get)

declare deep_merge.simps [simp del]

subsection \<open>set_future_result\<close>

text \<open>
  An \<^verbatim>\<open>asyncio.Future\<close> is pending, cancelled, or finished with a result or with an
  exception; \<^verbatim>\<open>done()\<close> is true in every state but the first.
  \<^verbatim>\<open>
  def set_future_result(future: Future, result: Any) -> None:
      if not future.done():
          if isinstance(result, Exception):
              future.set_exception(result)
          else:
              future.set_result(result)
  \<close>
  The value handed in is an exception (\<open>Inl\<close>, with its message) or anything else (\<open>Inr\<close>).
\<close>

datatype future = Pending | Cancelled | FinishedResult json | FinishedException string

fun done_future :: "future \<Rightarrow> bool" where
  "done_future Pending = False"
| "done_future _ = True"

definition set_future_result :: "future \<Rightarrow> string + json \<Rightarrow> future" where
  "set_future_result future result =
     (if \<not> done_future future then
        (case result of Inl ex \<Rightarrow> FinishedException ex | Inr v \<Rightarrow> FinishedResult v)
      else future)"

text \<open>What \<^verbatim>\<open>await future\<close> gives once the future is done, \<open>None\<close> while it is pending.\<close>

datatype awaited = Returned json | Raised string | CancelledError

fun await_outcome :: "future \<Rightarrow> awaited option" where
  "await_outcome Pending = None"
| "await_outcome Cancelled = Some CancelledError"
| "await_outcome (FinishedResult v) = Some (Returned v)"
| "await_outcome (FinishedException ex) = Some (Raised ex)"


subsection \<open>restart_service\<close>

text \<open>
  Every exception the modelled code raises or lets through. The two Arango exceptions are
  those \<^verbatim>\<open>ArangoEntityDb.update\<close> catches (\<^verbatim>\<open>DocumentUpdateError\<close> carries its
  \<^verbatim>\<open>error_code\<close>); \<open>OtherException\<close> stands for any exception no handler of the modelled code
  names.
\<close>

datatype error =
    DocumentRevisionError
  | DocumentUpdateError int
  | OptimisticLockingFailed string
  | AttributeError string
  | RestartService string
  | OtherException string

text \<open>
  \<^verbatim>\<open>
  def restart_service(reason: str) -> None:
      __mute_async_exception_reporting_on_current_loop()
      raise RestartService(reason)
  \<close>
\<close>

definition restart_service :: "string \<Rightarrow> error + unit" where
  "restart_service reason = Inl (RestartService reason)"


section \<open>resotocore/db/entitydb.py\<close>

text \<open>
  \<^verbatim>\<open>ArangoEntityDb\<close> is generic in the entity type and works on an \<^verbatim>\<open>AsyncArangoDB\<close>, which
  is outside the modelled sources: its \<^verbatim>\<open>update\<close> and \<^verbatim>\<open>insert\<close> are parameters, functions
  of the database state \<open>'s\<close> that raise or return the document's metadata and the new
  state. So are \<^verbatim>\<open>to_js\<close>, \<^verbatim>\<open>key_fn\<close> and what the entity class does with a revision
  (\<open>set_revision = None\<close> when the entity has no attribute \<^verbatim>\<open>revision\<close>).
\<close>

record ('t, 's) arango_entity_db =
  to_js :: "'t \<Rightarrow> dict"
  key_of :: "'t \<Rightarrow> string"
  set_revision :: "('t \<Rightarrow> json \<Rightarrow> 't) option"
  db_update :: "'s \<Rightarrow> dict \<Rightarrow> error + (dict \<times> 's)"
  db_insert :: "'s \<Rightarrow> dict \<Rightarrow> error + (dict \<times> 's)"

text \<open>
  \<^verbatim>\<open>
  def to_doc(self, elem: T) -> Json:
      js = to_js(elem)
      js["_key"] = self.key_of(elem)
      return js
  \<close>
\<close>

definition to_doc :: "('t, 's) arango_entity_db \<Rightarrow> 't \<Rightarrow> dict" where
  "to_doc edb elem = dict_set (to_js edb elem) ''_key'' (JStr (key_of edb elem))"

text \<open>
  \<^verbatim>\<open>
  async def update(self, t: T) -> T:
      doc = self.to_doc(t)
      try:
          result = await self.db.update(self.collection_name, doc, merge=False)
      except DocumentRevisionError as ex:
          raise OptimisticLockingFailed(self.key_of(t)) from ex
      except DocumentUpdateError as ex:
          if ex.error_code == 1202:  # document not found
              result = await self.db.insert(self.collection_name, doc)
          else:
              raise ex
      if hasattr(t, "revision") and "_rev" in result:
          if is_dataclass(t):
              t = replace(t, revision=result["_rev"])
          else:
              setattr(t, "revision", result["_rev"])
      return t
  \<close>
\<close>

definition try_update :: "('t, 's) arango_entity_db \<Rightarrow> 's \<Rightarrow> 't \<Rightarrow> error + (dict \<times> 's)" where
  "try_update edb s t =
     (let doc = to_doc edb t in
      case db_update edb s doc of
        Inr r \<Rightarrow> Inr r
      | Inl DocumentRevisionError \<Rightarrow> Inl (OptimisticLockingFailed (key_of edb t))
      | Inl (DocumentUpdateError error_code) \<Rightarrow>
          if error_code = 1202 then db_insert edb s doc
          else Inl (DocumentUpdateError error_code)
      | Inl ex \<Rightarrow> Inl ex)"

definition replace_revision :: "('t, 's) arango_entity_db \<Rightarrow> 't \<Rightarrow> dict \<Rightarrow> 't" where
  "replace_revision edb t result =
     (case set_revision edb of
        Some replace \<Rightarrow>
          if dict_has result ''_rev'' then replace t (dict_get result ''_rev'') else t
      | None \<Rightarrow> t)"

definition entity_update :: "('t, 's) arango_entity_db \<Rightarrow> 's \<Rightarrow> 't \<Rightarrow> error + ('t \<times> 's)" where
  "entity_update edb s t =
     (case try_update edb s t of
        Inl ex \<Rightarrow> Inl ex
      | Inr (result, s') \<Rightarrow> Inr (replace_revision edb t result, s'))"


section \<open>resotocore/config/config_handler_service.py\<close>

text \<open>
  \<^verbatim>\<open>ConfigEntity(id, config, revision)\<close> and \<^verbatim>\<open>ConfigValidation(id, external_validation)\<close> of
  \<^verbatim>\<open>resotocore.config\<close>; a \<^verbatim>\<open>WorkerTask(id, name, attrs, data, future, timeout)\<close>, its
  timeout in seconds (the future is the \<open>await_future\<close> of the dependencies below); an event
  of the message bus with its message type and data.
\<close>

record config_entity =
  cfg_id :: string
  config :: dict
  revision :: "string option"

record config_validation =
  validation_id :: string
  external_validation :: bool

record worker_task =
  task_id :: string
  task_name :: string
  attrs :: "(string \<times> string) list"
  task_data :: dict
  timeout_seconds :: int

datatype core_message = ConfigUpdated | ConfigDeleted

record event =
  message_type :: core_message
  event_data :: dict

text \<open>
  A kind of the configs model: \<^verbatim>\<open>check_valid(value)\<close> raises (\<open>Inl\<close>, the message of the
  exception) or returns the coerced value or \<^verbatim>\<open>None\<close>; a \<^verbatim>\<open>ComplexKind\<close> also has
  \<^verbatim>\<open>create_yaml(value, initial_level)\<close>.
\<close>

record kind =
  check_valid :: "json \<Rightarrow> string + json"
  create_yaml :: "(json \<Rightarrow> nat \<Rightarrow> string) option"

text \<open>
  What the service is constructed with and what it imports, none of it among the modelled
  sources: the three entity stores over one database state \<open>'s\<close> (an update raises or
  returns the stored entity and the new state), the model read from the model store, the
  worker-task queue seen from the caller (\<open>await_future task\<close> is what awaiting the
  task's future raises or returns once the queue has completed it), \<^verbatim>\<open>uuid_str\<close> (the n-th
  id handed out) and \<^verbatim>\<open>yaml.dump({key: value}, sort_keys=False)\<close>.
\<close>

record 's dependencies =
  cfg_db_get :: "'s \<Rightarrow> string \<Rightarrow> config_entity option"
  cfg_db_update :: "'s \<Rightarrow> config_entity \<Rightarrow> error + (config_entity \<times> 's)"
  validation_db_get :: "'s \<Rightarrow> string \<Rightarrow> config_validation option"
  get_configs_model :: "'s \<Rightarrow> string \<Rightarrow> kind option"
  await_future :: "worker_task \<Rightarrow> error + json"
  uuid_str :: "nat \<Rightarrow> string"
  yaml_dump :: "string \<Rightarrow> json \<Rightarrow> string"

text \<open>
  The state the service works on: the database, the tasks handed to
  \<^verbatim>\<open>task_queue.add_task\<close> so far and the events emitted on the message bus so far, oldest
  first. Each operation runs from its first to its last line on this state: what other
  coroutines do at its \<^verbatim>\<open>await\<close>s is not modelled.
\<close>

record 's service =
  database :: 's
  submitted_tasks :: "worker_task list"
  emitted_events :: "event list"

definition validate_config :: string where
  "validate_config = ''validate_config''"

text \<open>
  \<^verbatim>\<open>
  async def acknowledge_config_change(self, cfg_id: str, config: Json) -> None:
      future = asyncio.get_event_loop().create_future()
      task = WorkerTask(
          uuid_str(),
          WorkerTaskName.validate_config,
          {"config_id": cfg_id},
          {"task": WorkerTaskName.validate_config, "config": config},
          future,
          timedelta(seconds=30),
      )
      await self.task_queue.add_task(task)
      await future
  \<close>
\<close>

definition validation_task :: "'s dependencies \<Rightarrow> 's service \<Rightarrow> string \<Rightarrow> dict \<Rightarrow> worker_task" where
  "validation_task deps s cfg_id' config' =
     \<lparr>task_id = uuid_str deps (length (submitted_tasks s)),
      task_name = validate_config,
      attrs = [(''config_id'', cfg_id')],
      task_data = [(''task'', JStr validate_config), (''config'', JDict config')],
      timeout_seconds = 30\<rparr>"

definition acknowledge_config_change ::
  "'s dependencies \<Rightarrow> 's service \<Rightarrow> string \<Rightarrow> dict \<Rightarrow> (error + unit) \<times> 's service" where
  "acknowledge_config_change deps s cfg_id' config' =
     (let task = validation_task deps s cfg_id' config';
          s' = s\<lparr>submitted_tasks := submitted_tasks s @ [task]\<rparr>
      in case await_future deps task of
           Inl ex \<Rightarrow> (Inl ex, s')
         | Inr _ \<Rightarrow> (Inr (), s'))"

text \<open>
  The loop of \<^verbatim>\<open>coerce_and_check_model\<close> over \<^verbatim>\<open>config.items()\<close>, \<open>final_config\<close> its
  accumulator:
  \<^verbatim>\<open>
          for key, value in config.items():
              if key in model:
                  try:
                      coerced = model[key].check_valid(value)
                      final_config[key] = coerced or value
                  except Exception as ex:
                      raise AttributeError(f"Error validating section {key}: {ex}") from ex
              else:
                  final_config[key] = value
  \<close>
\<close>

fun coerce_sections :: "(string \<Rightarrow> kind option) \<Rightarrow> dict \<Rightarrow> dict \<Rightarrow> error + dict" where
  "coerce_sections model final_config [] = Inr final_config"
| "coerce_sections model final_config ((key, value) # items) =
     (case model key of
        Some k \<Rightarrow>
          (case check_valid k value of
             Inl ex \<Rightarrow> Inl (AttributeError (''Error validating section '' @ key @ '': '' @ ex))
           | Inr coerced \<Rightarrow>
               coerce_sections model
                 (dict_set final_config key (if truthy coerced then coerced else value)) items)
      | None \<Rightarrow> coerce_sections model (dict_set final_config key value) items)"

text \<open>
  \<^verbatim>\<open>
  async def coerce_and_check_model(self, cfg_id: str, config: Json, validate: bool = True) -> Json:
      model = await self.get_configs_model()
      final_config = {}
      if validate:
          for key, value in config.items(): ...
      else:
          final_config = config
      validation = await self.validation_db.get(cfg_id)
      if validation and validation.external_validation and validate:
          await self.acknowledge_config_change(cfg_id, final_config)
      return final_config
  \<close>
\<close>

definition coerce_and_check_model ::
  "'s dependencies \<Rightarrow> 's service \<Rightarrow> string \<Rightarrow> dict \<Rightarrow> bool \<Rightarrow> (error + dict) \<times> 's service" where
  "coerce_and_check_model deps s cfg_id' config' validate =
     (case (if validate then coerce_sections (get_configs_model deps (database s)) [] config'
            else Inr config') of
        Inl ex \<Rightarrow> (Inl ex, s)
      | Inr final_config \<Rightarrow>
          (case validation_db_get deps (database s) cfg_id' of
             Some validation \<Rightarrow>
               if external_validation validation \<and> validate then
                 (case acknowledge_config_change deps s cfg_id' final_config of
                    (Inl ex, s') \<Rightarrow> (Inl ex, s')
                  | (Inr _, s') \<Rightarrow> (Inr final_config, s'))
               else (Inr final_config, s)
           | None \<Rightarrow> (Inr final_config, s)))"

text \<open>\<^verbatim>\<open>dict(id=result.id, revision=result.revision)\<close>\<close>

definition config_updated :: "config_entity \<Rightarrow> event" where
  "config_updated result =
     \<lparr>message_type = ConfigUpdated,
      event_data = [(''id'', JStr (cfg_id result)),
                    (''revision'', case revision result of None \<Rightarrow> JNull | Some r \<Rightarrow> JStr r)]\<rparr>"

text \<open>
  \<^verbatim>\<open>
  async def put_config(self, cfg: ConfigEntity, validate: bool = True) -> ConfigEntity:
      coerced = await self.coerce_and_check_model(cfg.id, cfg.config, validate)
      existing = await self.cfg_db.get(cfg.id)
      if not existing or existing.config != cfg.config:
          result = await self.cfg_db.update(ConfigEntity(cfg.id, coerced, cfg.revision))
          await self.message_bus.emit_event(CoreMessage.ConfigUpdated, dict(id=result.id, revision=result.revision))
          return result
      else:
          return existing
  \<close>
\<close>

definition write_config ::
  "'s dependencies \<Rightarrow> 's service \<Rightarrow> config_entity \<Rightarrow> (error + config_entity) \<times> 's service" where
  "write_config deps s entity =
     (case cfg_db_update deps (database s) entity of
        Inl ex \<Rightarrow> (Inl ex, s)
      | Inr (result, db') \<Rightarrow>
          (Inr result, s\<lparr>database := db', emitted_events := emitted_events s @ [config_updated result]\<rparr>))"

definition put_config ::
  "'s dependencies \<Rightarrow> 's service \<Rightarrow> config_entity \<Rightarrow> bool \<Rightarrow> (error + config_entity) \<times> 's service" where
  "put_config deps s cfg validate =
     (case coerce_and_check_model deps s (cfg_id cfg) (config cfg) validate of
        (Inl ex, s') \<Rightarrow> (Inl ex, s')
      | (Inr coerced, s') \<Rightarrow>
          (case cfg_db_get deps (database s') (cfg_id cfg) of
             None \<Rightarrow>
               write_config deps s' \<lparr>cfg_id = cfg_id cfg, config = coerced, revision = revision cfg\<rparr>
           | Some existing \<Rightarrow>
               if \<not> py_eq (JDict (config existing)) (JDict (config cfg)) then
                 write_config deps s' \<lparr>cfg_id = cfg_id cfg, config = coerced, revision = revision cfg\<rparr>
               else (Inr existing, s')))"

text \<open>
  \<^verbatim>\<open>
  async def patch_config(self, cfg: ConfigEntity) -> ConfigEntity:
      current = await self.cfg_db.get(cfg.id)
      current_config = current.config if current else {}
      coerced = await self.coerce_and_check_model(cfg.id, {**current_config, **cfg.config})
      result = await self.cfg_db.update(ConfigEntity(cfg.id, coerced, current.revision if current else None))
      await self.message_bus.emit_event(CoreMessage.ConfigUpdated, dict(id=result.id, revision=result.revision))
      return result
  \<close>
\<close>

definition current_config :: "'s dependencies \<Rightarrow> 's service \<Rightarrow> string \<Rightarrow> dict" where
  "current_config deps s cfg_id' =
     (case cfg_db_get deps (database s) cfg_id' of Some current \<Rightarrow> config current | None \<Rightarrow> [])"

definition current_revision :: "'s dependencies \<Rightarrow> 's service \<Rightarrow> string \<Rightarrow> string option" where
  "current_revision deps s cfg_id' =
     (case cfg_db_get deps (database s) cfg_id' of Some current \<Rightarrow> revision current | None \<Rightarrow> None)"

definition patch_config ::
  "'s dependencies \<Rightarrow> 's service \<Rightarrow> config_entity \<Rightarrow> (error + config_entity) \<times> 's service" where
  "patch_config deps s cfg =
     (case coerce_and_check_model deps s (cfg_id cfg)
             (dict_union (current_config deps s (cfg_id cfg)) (config cfg)) True of
        (Inl ex, s') \<Rightarrow> (Inl ex, s')
      | (Inr coerced, s') \<Rightarrow>
          write_config deps s'
            \<lparr>cfg_id = cfg_id cfg, config = coerced,
             revision = current_revision deps s (cfg_id cfg)\<rparr>)"

text \<open>
  \<^verbatim>\<open>
  async def config_yaml(self, cfg_id: str, revision: bool = False) -> Optional[str]:
      config = await self.get_config(cfg_id)
      if config:
          model = await self.get_configs_model()
          yaml_str = ""
          for num, (key, value) in enumerate(config.config.items()):
              maybe_kind = model.get(key)
              if isinstance(maybe_kind, ComplexKind):
                  part = maybe_kind.create_yaml(value, initial_level=1)
                  if num > 0:
                      yaml_str += "\n"
                  yaml_str += key + ":" + part
              else:
                  yaml_str += yaml.dump({key: value}, sort_keys=False)
          if revision and config.revision:
              yaml_str += (
                  "\n\n# This property is not part of the configuration but defines the revision "
                  "of this document.\n# Please leave it here to avoid conflicting writes.\n"
                  f'_revision: "{config.revision}"'
              )
          return yaml_str
      else:
          return None
  \<close>
  \<open>yaml_sections\<close> is the loop, \<open>num\<close> the counter of \<^verbatim>\<open>enumerate\<close>.
\<close>

definition get_config :: "'s dependencies \<Rightarrow> 's service \<Rightarrow> string \<Rightarrow> config_entity option" where
  "get_config deps s cfg_id' = cfg_db_get deps (database s) cfg_id'"

fun yaml_sections ::
  "(string \<Rightarrow> kind option) \<Rightarrow> (string \<Rightarrow> json \<Rightarrow> string) \<Rightarrow> nat \<Rightarrow> dict \<Rightarrow> string \<Rightarrow> string" where
  "yaml_sections model dump num [] yaml_str = yaml_str"
| "yaml_sections model dump num ((key, value) # items) yaml_str =
     yaml_sections model dump (Suc num) items
       (case (case model key of Some k \<Rightarrow> create_yaml k | None \<Rightarrow> None) of
          Some complex_yaml \<Rightarrow>
            (if num > 0 then yaml_str @ [CHR 0x0A] else yaml_str) @ key @ '':'' @ complex_yaml value 1
        | None \<Rightarrow> yaml_str @ dump key value)"

definition revision_trailer :: "string \<Rightarrow> string" where
  "revision_trailer r =
     [CHR 0x0A, CHR 0x0A] @
     ''# This property is not part of the configuration but defines the revision of this document.'' @
     [CHR 0x0A] @ ''# Please leave it here to avoid conflicting writes.'' @
     [CHR 0x0A] @ ''_revision: '' @ [CHR 0x22] @ r @ [CHR 0x22]"

definition config_yaml :: "'s dependencies \<Rightarrow> 's service \<Rightarrow> string \<Rightarrow> bool \<Rightarrow> string option" where
  "config_yaml deps s cfg_id' with_revision =
     (case get_config deps s cfg_id' of
        Some cfg \<Rightarrow>
          (let yaml_str = yaml_sections (get_configs_model deps (database s)) (yaml_dump deps) 0 (config cfg) []
           in case revision cfg of
                Some r \<Rightarrow>
                  if with_revision \<and> r \<noteq> [] then Some (yaml_str @ revision_trailer r)
                  else Some yaml_str
              | None \<Rightarrow> Some yaml_str)
      | None \<Rightarrow> None)"


section \<open>resotocore/config/core_config_handler.py\<close>

text \<open>
  \<^verbatim>\<open>
  async def __handle_events(self) -> None:
      async with self.message_bus.subscribe("resotocore_config_update", [CoreMessage.ConfigUpdated]) as events:
          while True:
              event = await events.get()
              if event.data.get("id") == ResotoCoreConfigId:
                  log.info("Core config was updated. Restart to take effect.")
                  self.exit_fn()
  \<close>
  \<^verbatim>\<open>ResotoCoreConfigId\<close> is a constant of \<^verbatim>\<open>resotocore.core_config\<close> and a parameter here;
  \<open>exit_fn\<close> raises or returns. The handler is run on the events the bus has emitted: the
  subscription lets the \<^verbatim>\<open>ConfigUpdated\<close> ones through. The loop gives the number of calls
  of \<open>exit_fn\<close> it has made, and the exception that ended it, if one did (\<open>Inr ()\<close>: every
  event so far is handled, the handler waits for the next).
\<close>

definition subscribed :: "core_message list \<Rightarrow> event list \<Rightarrow> event list" where
  "subscribed message_types emitted = filter (\<lambda>e. message_type e \<in> set message_types) emitted"

definition is_core_config :: "string \<Rightarrow> event \<Rightarrow> bool" where
  "is_core_config ResotoCoreConfigId event =
     py_eq (dict_get (event_data event) ''id'') (JStr ResotoCoreConfigId)"

fun event_loop :: "string \<Rightarrow> (unit \<Rightarrow> error + unit) \<Rightarrow> event list \<Rightarrow> nat \<Rightarrow> (error + unit) \<times> nat" where
  "event_loop ResotoCoreConfigId exit_fn [] calls = (Inr (), calls)"
| "event_loop ResotoCoreConfigId exit_fn (event # events) calls =
     (if is_core_config ResotoCoreConfigId event then
        (case exit_fn () of
           Inl ex \<Rightarrow> (Inl ex, Suc calls)
         | Inr _ \<Rightarrow> event_loop ResotoCoreConfigId exit_fn events (Suc calls))
      else event_loop ResotoCoreConfigId exit_fn events calls)"

definition handle_events :: "string \<Rightarrow> (unit \<Rightarrow> error + unit) \<Rightarrow> event list \<Rightarrow> (error + unit) \<times> nat" where
  "handle_events ResotoCoreConfigId exit_fn emitted =
     event_loop ResotoCoreConfigId exit_fn (subscribed [ConfigUpdated] emitted) 0"

text \<open>The default of the constructor: \<^verbatim>\<open>partial(restart_service, "resotocore config changed.")\<close>\<close>

definition default_exit_fn :: "unit \<Rightarrow> error + unit" where
  "default_exit_fn = (\<lambda>_. restart_service ''resotocore config changed.'')"


section \<open>resotocore/__main__.py\<close>

text \<open>
  \<^verbatim>\<open>
      while True:
          try:
              run_process(args)
              break
          except RestartService as ex:
              message = f"Restarting Service. Reason: {ex.reason}"
              line = "-" * len(message)
              print(f"\n{line}\n{message}\n{line}\n")
  \<close>
  \<open>run_process n\<close> is what the n-th call of \<^verbatim>\<open>run_process\<close> does: it returns or raises. The
  loop has no bound, so \<open>run\<close> is a partial function: \<open>None\<close> when it never ends. Its value
  is the number of calls of \<^verbatim>\<open>run_process\<close> made so far together with how the loop ended.
\<close>

partial_function (option) run_loop :: "(nat \<Rightarrow> error + unit) \<Rightarrow> nat \<Rightarrow> ((error + unit) \<times> nat) option" where
  "run_loop run_process n =
     (case run_process n of
        Inr _ \<Rightarrow> Some (Inr (), Suc n)
      | Inl ex \<Rightarrow>
          (case ex of
             RestartService reason \<Rightarrow> run_loop run_process (Suc n)
           | _ \<Rightarrow> Some (Inl ex, Suc n)))"

definition run :: "(nat \<Rightarrow> error + unit) \<Rightarrow> ((error + unit) \<times> nat) option" where
  "run run_process = run_loop run_process 0"


section \<open>A document store for the examples\<close>

text \<open>
  Modelled from the spec: the document store that \<^verbatim>\<open>ArangoEntityDb\<close> talks to
  (\<^verbatim>\<open>AsyncArangoDB\<close> and the serialisation of \<^verbatim>\<open>ConfigEntity\<close> are not among the
  sources). Documents carry \<^verbatim>\<open>_key\<close> and \<^verbatim>\<open>_rev\<close>; \<^verbatim>\<open>update\<close> on a stale \<^verbatim>\<open>_rev\<close> raises
  a revision error, \<^verbatim>\<open>update\<close> on a missing document raises a not-found error (code 1202).
  A write stamps the document with a fresh revision, taken from a counter. The general
  statements below do not depend on this store: it is the concrete input of the examples.
\<close>

record store =
  documents :: dict
  clock :: nat

definition new_rev :: "nat \<Rightarrow> string" where
  "new_rev n = replicate (Suc n) (CHR ''i'')"

definition doc_key :: "dict \<Rightarrow> string" where
  "doc_key doc = (case dict_get doc ''_key'' of JStr k \<Rightarrow> k | _ \<Rightarrow> [])"

definition write_doc :: "store \<Rightarrow> dict \<Rightarrow> dict \<times> store" where
  "write_doc s doc =
     (let r = JStr (new_rev (clock s))
      in ([(''_key'', JStr (doc_key doc)), (''_rev'', r)],
          \<lparr>documents = dict_set (documents s) (doc_key doc) (JDict (dict_set doc ''_rev'' r)),
           clock = Suc (clock s)\<rparr>))"

definition store_update :: "store \<Rightarrow> dict \<Rightarrow> error + (dict \<times> store)" where
  "store_update s doc =
     (case map_of (documents s) (doc_key doc) of
        None \<Rightarrow> Inl (DocumentUpdateError 1202)
      | Some old \<Rightarrow>
          if dict_get doc ''_rev'' \<noteq> JNull \<and> dict_get doc ''_rev'' \<noteq> dict_get (as_dict old) ''_rev''
          then Inl DocumentRevisionError
          else Inr (write_doc s doc))"

definition store_insert :: "store \<Rightarrow> dict \<Rightarrow> error + (dict \<times> store)" where
  "store_insert s doc =
     (if dict_has (documents s) (doc_key doc)
      then Inl (OtherException ''unique constraint violated'')
      else Inr (write_doc s doc))"

definition config_to_js :: "config_entity \<Rightarrow> dict" where
  "config_to_js e =
     [(''id'', JStr (cfg_id e)), (''config'', JDict (config e)),
      (''_rev'', case revision e of None \<Rightarrow> JNull | Some r \<Rightarrow> JStr r)]"

definition config_from_js :: "dict \<Rightarrow> config_entity" where
  "config_from_js js =
     \<lparr>cfg_id = (case dict_get js ''id'' of JStr k \<Rightarrow> k | _ \<Rightarrow> []),
      config = as_dict (dict_get js ''config''),
      revision = (case dict_get js ''_rev'' of JStr r \<Rightarrow> Some r | _ \<Rightarrow> None)\<rparr>"

definition config_entity_db :: "(config_entity, store) arango_entity_db" where
  "config_entity_db =
     \<lparr>to_js = config_to_js, key_of = cfg_id,
      set_revision = Some (\<lambda>e r. e\<lparr>revision := (case r of JStr x \<Rightarrow> Some x | _ \<Rightarrow> None)\<rparr>),
      db_update = store_update, db_insert = store_insert\<rparr>"

definition store_get :: "store \<Rightarrow> string \<Rightarrow> config_entity option" where
  "store_get s k = map_option (\<lambda>d. config_from_js (as_dict d)) (map_of (documents s) k)"

definition sample_store :: store where
  "sample_store =
     \<lparr>documents = [(''c1'', JDict [(''id'', JStr ''c1''),
                                   (''config'', JDict [(''a'', JDict [(''x'', JInt 1)]), (''b'', JInt 1)]),
                                   (''_rev'', JStr ''i''), (''_key'', JStr ''c1'')])],
      clock = 1\<rparr>"

text \<open>
  A service for the examples: the config \<^verbatim>\<open>c1\<close> is stored at revision \<^verbatim>\<open>i\<close> and is
  validated externally; the model knows the section \<^verbatim>\<open>b\<close> as an integer; the worker
  rejects a config whose \<^verbatim>\<open>b\<close> is 13 with "bad value".
\<close>

definition int_kind :: kind where
  "int_kind =
     \<lparr>check_valid = (\<lambda>v. case v of JInt i \<Rightarrow> Inr JNull | _ \<Rightarrow> Inl ''Expected type int32''),
      create_yaml = None\<rparr>"

definition sample_deps :: "store dependencies" where
  "sample_deps =
     \<lparr>cfg_db_get = store_get,
      cfg_db_update = entity_update config_entity_db,
      validation_db_get =
        (\<lambda>s. map_of [(''c1'', \<lparr>validation_id = ''c1'', external_validation = True\<rparr>)]),
      get_configs_model = (\<lambda>s. map_of [(''b'', int_kind)]),
      await_future =
        (\<lambda>task. if dict_get (as_dict (dict_get (task_data task) ''config'')) ''b'' = JInt 13
                then Inl (OtherException ''bad value'') else Inr JNull),
      uuid_str = new_rev,
      yaml_dump = (\<lambda>key v. key @ '': ...'' @ [CHR 0x0A])\<rparr>"

definition sample_service :: "store service" where
  "sample_service = \<lparr>database = sample_store, submitted_tasks = [], emitted_events = []\<rparr>"

text \<open>
  A service whose only config carries no revision, and the events of a bus on which the core
  config (\<^verbatim>\<open>resoto.core\<close> here) is updated twice, after an update of another config and the
  deletion of the core config.
\<close>

definition unrevised_service :: "store service" where
  "unrevised_service =
     \<lparr>database = \<lparr>documents = [(''c3'', JDict [(''id'', JStr ''c3''),
                                               (''config'', JDict [(''b'', JInt 1)]),
                                               (''_key'', JStr ''c3'')])],
                   clock = 0\<rparr>,
      submitted_tasks = [], emitted_events = []\<rparr>"

text \<open>The same dependencies with a worker that rejects every config.\<close>

definition rejecting_deps :: "store dependencies" where
  "rejecting_deps = sample_deps\<lparr>await_future := (\<lambda>task. Inl (OtherException ''rejected''))\<rparr>"

definition sample_events :: "event list" where
  "sample_events =
     [\<lparr>message_type = ConfigUpdated, event_data = [(''id'', JStr ''resoto.worker''), (''revision'', JStr ''i'')]\<rparr>,
      \<lparr>message_type = ConfigDeleted, event_data = [(''id'', JStr ''resoto.core'')]\<rparr>,
      \<lparr>message_type = ConfigUpdated, event_data = [(''id'', JStr ''resoto.core''), (''revision'', JStr ''ii'')]\<rparr>,
      \<lparr>message_type = ConfigUpdated, event_data = [(''id'', JStr ''resoto.core''), (''revision'', JStr ''iii'')]\<rparr>]"


section \<open>Properties\<close>

subsection \<open>deep_merge and set_future_result\<close>

lemma py_eq_refl: "wf_json x \<Longrightarrow> py_eq x x"
proof (induction x)
  case (JList xs)
  then show ?case by (auto simp: list_all_iff zip_same)
next
  case (JDict d)
  then show ?case by (fastforce simp: list_all_iff)
qed auto

lemma union_keys_same: "distinct (map fst d) \<Longrightarrow> union_keys d d = map fst d"
  by (simp add: union_keys_def remdups_append)

lemma dict_get_mem: "distinct (map fst d) \<Longrightarrow> (k, v) \<in> set d \<Longrightarrow> dict_get d k = v"
  by (simp add: dict_get_def)

lemma map_keys_id:
  "(\<And>k v. (k, v) \<in> set d \<Longrightarrow> f k = v) \<Longrightarrow> map (\<lambda>k. (k, f k)) (map fst d) = d"
  by (induction d) auto

lemma deep_merge_same: "wf_json (JDict x) \<Longrightarrow> deep_merge x x = x"
proof (induction "size (JDict x)" arbitrary: x rule: less_induct)
  case less
  have d: "distinct (map fst x)" using less.prems by simp
  have "map (\<lambda>k. (k, case dict_get x k of
                     JDict rv \<Rightarrow> JDict (deep_merge (as_dict (dict_get x k)) rv)
                   | right_value \<Rightarrow> if truthy right_value then right_value else dict_get x k))
            (map fst x) = x"
  proof (rule map_keys_id)
    fix k v assume kv: "(k, v) \<in> set x"
    then have g: "dict_get x k = v" using d by (rule dict_get_mem[rotated])
    show "(case dict_get x k of
             JDict rv \<Rightarrow> JDict (deep_merge (as_dict (dict_get x k)) rv)
           | right_value \<Rightarrow> if truthy right_value then right_value else dict_get x k) = v"
    proof (cases v)
      case (JDict rv)
      have "size (JDict rv) < size (JDict x)" using g JDict by (auto dest: size_dict_get)
      moreover have "wf_json v" using less.prems kv by (auto simp: list_all_iff)
      then have "wf_json (JDict rv)" using JDict by simp
      ultimately have "deep_merge rv rv = rv" by (intro less.hyps)
      then show ?thesis using g JDict by simp
    qed (simp_all add: g)
  qed
  then show ?case using d by (subst deep_merge.simps) (simp add: union_keys_same)
qed

lemma map_of_deep_merge:
  "map_of (deep_merge left right) k =
     (if k \<in> fst ` set left \<union> fst ` set right
      then Some (case dict_get right k of
                   JDict rv \<Rightarrow> JDict (deep_merge (as_dict (dict_get left k)) rv)
                 | right_value \<Rightarrow> if truthy right_value then right_value else dict_get left k)
      else None)"
  by (subst deep_merge.simps) (auto simp: map_of_map_restrict union_keys_def restrict_map_def)

text \<open>
  Where the right value is falsy and not a dict, the merged value is \<^verbatim>\<open>left.get(key)\<close>:
  the left value when the left key is present, \<^verbatim>\<open>None\<close> when it is absent.
\<close>

lemma deep_merge_falsy_right:
  assumes "map_of right k = Some rv" "\<not> truthy rv" "\<forall>d. rv \<noteq> JDict d"
  shows "dict_get (deep_merge left right) k = dict_get left k"
  using assms
  by (cases rv)
     (auto simp: dict_get_def map_of_deep_merge dest: map_of_SomeD intro: rev_image_eqI
           split: option.splits)

text \<open>
  C6. \<open>deep_merge\<close> is idempotent: for every JSON object \<open>x\<close> (a dict, its keys distinct at
  every level), \<^verbatim>\<open>deep_merge(x, x) == x\<close>.
\<close>

theorem deep_merge_idempotent:
  "wf_json (JDict x) \<Longrightarrow> py_eq (JDict (deep_merge x x)) (JDict x)"
  using deep_merge_same[of x] py_eq_refl[of "JDict x"] by simp

theorem deep_merge_idempotent_witness:
  "wf_json (JDict [(''a'', JDict [(''b'', JInt 0), (''c'', JList [])]), (''d'', JBool False)]) \<and>
   py_eq (JDict (deep_merge [(''a'', JDict [(''b'', JInt 0), (''c'', JList [])]), (''d'', JBool False)]
                            [(''a'', JDict [(''b'', JInt 0), (''c'', JList [])]), (''d'', JBool False)]))
         (JDict [(''a'', JDict [(''b'', JInt 0), (''c'', JList [])]), (''d'', JBool False)])"
proof -
  have h: "wf_json (JDict [(''a'', JDict [(''b'', JInt 0), (''c'', JList [])]), (''d'', JBool False)])"
    by simp
  show ?thesis using h deep_merge_idempotent [OF h] by simp
qed

text \<open>
  C5. A falsy right value that is not a dict is said to be kept when the left key is absent.
  At \<^verbatim>\<open>deep_merge({}, {"a": False})\<close> the code gives \<^verbatim>\<open>{"a": None}\<close>: the last branch of
  \<^verbatim>\<open>merge\<close> returns \<^verbatim>\<open>left.get("a")\<close>, so the value \<^verbatim>\<open>False\<close> of the right side is lost,
  against the function's docstring ("All values in right will be set on the left side").
\<close>

theorem deep_merge_falsy_right_left_absent:
  "deep_merge [] [(''a'', JBool False)] = [(''a'', JNull)] \<and>
   dict_get (deep_merge [] [(''a'', JBool False)]) ''a'' \<noteq> JBool False"
  by (simp add: deep_merge.simps union_keys_def dict_get_def)

text \<open>
  C9. A future is resolved once: on a future that is done \<open>set_future_result\<close> changes
  nothing; after one call the future is done, so a second call leaves the outcome of the
  first, and that is what an awaiter sees.
\<close>

theorem set_future_result_once:
  "(done_future f \<longrightarrow> set_future_result f r = f) \<and>
   done_future (set_future_result f r1) \<and>
   set_future_result (set_future_result f r1) r2 = set_future_result f r1 \<and>
   await_outcome (set_future_result (set_future_result f r1) r2) = await_outcome (set_future_result f r1)"
  by (cases f; cases r1) (simp_all add: set_future_result_def)

theorem set_future_result_once_witness:
  "done_future (FinishedResult (JInt 1)) \<and>
   set_future_result (FinishedResult (JInt 1)) (Inl ''late'') = FinishedResult (JInt 1) \<and>
   set_future_result (set_future_result Pending (Inr (JInt 1))) (Inl ''late'') = FinishedResult (JInt 1) \<and>
   await_outcome (set_future_result (set_future_result Pending (Inr (JInt 1))) (Inl ''late'')) = Some (Returned (JInt 1))"
  using set_future_result_once [of "FinishedResult (JInt 1)" "Inl ''late''" "Inr (JInt 1)" "Inl ''late''"]
        set_future_result_once [of Pending "Inl ''late''" "Inr (JInt 1)" "Inl ''late''"]
  by (simp add: set_future_result_def)

subsection \<open>Evaluating the examples\<close>

lemmas store_defs = entity_update_def try_update_def replace_revision_def to_doc_def config_entity_db_def
  store_update_def store_insert_def write_doc_def doc_key_def config_to_js_def config_from_js_def
  store_get_def sample_store_def new_rev_def dict_get_def dict_has_def

lemmas sample_defs = sample_deps_def sample_service_def int_kind_def store_defs
  put_config_def patch_config_def coerce_and_check_model_def acknowledge_config_change_def
  validation_task_def validate_config_def write_config_def config_updated_def
  current_config_def current_revision_def dict_union_def

subsection \<open>ArangoEntityDb.update\<close>

text \<open>
  C7. An update against a stale revision raises \<^verbatim>\<open>OptimisticLockingFailed\<close> with the key of
  the entity; an update of a document that does not exist (\<^verbatim>\<open>DocumentUpdateError\<close> with code
  1202) falls back to an insert, and the update ends as the insert does: with the entity at
  the revision of the inserted document, or with the exception of the insert; every other
  exception of the document update reaches the caller as it is.
\<close>

theorem entity_update_errors:
  "(db_update edb s (to_doc edb t) = Inl DocumentRevisionError \<longrightarrow>
      entity_update edb s t = Inl (OptimisticLockingFailed (key_of edb t))) \<and>
   (\<forall>result s'. db_update edb s (to_doc edb t) = Inl (DocumentUpdateError 1202) \<and>
                 db_insert edb s (to_doc edb t) = Inr (result, s') \<longrightarrow>
      entity_update edb s t = Inr (replace_revision edb t result, s')) \<and>
   (\<forall>ex. db_update edb s (to_doc edb t) = Inl (DocumentUpdateError 1202) \<and>
                 db_insert edb s (to_doc edb t) = Inl ex \<longrightarrow>
      entity_update edb s t = Inl ex) \<and>
   (\<forall>error_code. db_update edb s (to_doc edb t) = Inl (DocumentUpdateError error_code) \<and>
                  error_code \<noteq> 1202 \<longrightarrow>
      entity_update edb s t = Inl (DocumentUpdateError error_code)) \<and>
   (\<forall>ex. db_update edb s (to_doc edb t) = Inl ex \<and> ex \<noteq> DocumentRevisionError \<and>
          (\<forall>error_code. ex \<noteq> DocumentUpdateError error_code) \<longrightarrow>
      entity_update edb s t = Inl ex)"
  by (auto simp: entity_update_def try_update_def split: error.splits)

theorem entity_update_errors_witness:
  "db_update config_entity_db sample_store
     (to_doc config_entity_db \<lparr>cfg_id = ''c1'', config = [(''b'', JInt 2)], revision = Some ''stale''\<rparr>)
     = Inl DocumentRevisionError \<and>
   entity_update config_entity_db sample_store
     \<lparr>cfg_id = ''c1'', config = [(''b'', JInt 2)], revision = Some ''stale''\<rparr>
     = Inl (OptimisticLockingFailed ''c1'') \<and>
   db_update config_entity_db sample_store
     (to_doc config_entity_db \<lparr>cfg_id = ''c2'', config = [(''b'', JInt 2)], revision = None\<rparr>)
     = Inl (DocumentUpdateError 1202) \<and>
   entity_update config_entity_db sample_store
       \<lparr>cfg_id = ''c2'', config = [(''b'', JInt 2)], revision = None\<rparr>
     = Inr (\<lparr>cfg_id = ''c2'', config = [(''b'', JInt 2)], revision = Some ''ii''\<rparr>,
            \<lparr>documents = documents sample_store @
               [(''c2'', JDict [(''id'', JStr ''c2''), (''config'', JDict [(''b'', JInt 2)]),
                               (''_rev'', JStr ''ii''), (''_key'', JStr ''c2'')])],
             clock = 2\<rparr>) \<and>
   entity_update (config_entity_db\<lparr>db_update := \<lambda>s doc. Inl (DocumentUpdateError 1202)\<rparr>) sample_store
     \<lparr>cfg_id = ''c1'', config = [(''b'', JInt 2)], revision = Some ''i''\<rparr>
     = Inl (OtherException ''unique constraint violated'') \<and>
   entity_update (config_entity_db\<lparr>db_update := \<lambda>s doc. Inl (DocumentUpdateError 1210)\<rparr>) sample_store
     \<lparr>cfg_id = ''c1'', config = [(''b'', JInt 2)], revision = Some ''i''\<rparr>
     = Inl (DocumentUpdateError 1210) \<and>
   entity_update (config_entity_db\<lparr>db_update := \<lambda>s doc. Inl (OtherException ''connection lost'')\<rparr>) sample_store
     \<lparr>cfg_id = ''c1'', config = [(''b'', JInt 2)], revision = Some ''i''\<rparr>
     = Inl (OtherException ''connection lost'')"
  using entity_update_errors [of config_entity_db sample_store
          "\<lparr>cfg_id = ''c1'', config = [(''b'', JInt 2)], revision = Some ''stale''\<rparr>"]
        entity_update_errors [of config_entity_db sample_store
          "\<lparr>cfg_id = ''c2'', config = [(''b'', JInt 2)], revision = None\<rparr>"]
  by (simp add: store_defs Let_def)

subsection \<open>The config handler\<close>

lemma acknowledge_state:
  "snd (acknowledge_config_change deps s i c) =
     s\<lparr>submitted_tasks := submitted_tasks s @ [validation_task deps s i c]\<rparr>"
  by (simp add: acknowledge_config_change_def Let_def split: sum.splits)

lemma acknowledge_result:
  "fst (acknowledge_config_change deps s i c) =
     (case await_future deps (validation_task deps s i c) of Inl ex \<Rightarrow> Inl ex | Inr _ \<Rightarrow> Inr ())"
  by (simp add: acknowledge_config_change_def Let_def split: sum.splits)

lemma coerce_state:
  "database (snd (coerce_and_check_model deps s i c v)) = database s \<and>
   emitted_events (snd (coerce_and_check_model deps s i c v)) = emitted_events s"
proof -
  have a: "snd (acknowledge_config_change deps s i c') =
             s\<lparr>submitted_tasks := submitted_tasks s @ [validation_task deps s i c']\<rparr>" for c'
    by (rule acknowledge_state)
  show ?thesis
  proof (cases "if v then coerce_sections (get_configs_model deps (database s)) [] c else Inr c")
    case (Inl ex)
    then show ?thesis by (simp add: coerce_and_check_model_def)
  next
    case (Inr final)
    obtain r s' where k: "acknowledge_config_change deps s i final = (r, s')"
      by (cases "acknowledge_config_change deps s i final")
    then have "s' = s\<lparr>submitted_tasks := submitted_tasks s @ [validation_task deps s i final]\<rparr>"
      using a[of final] by simp
    then show ?thesis using Inr k
      by (cases r) (simp_all add: coerce_and_check_model_def split: option.splits)
  qed
qed

lemma coerce_sections_raises:
  "isl (coerce_sections model acc c) \<longleftrightarrow>
     (\<exists>key value k. (key, value) \<in> set c \<and> model key = Some k \<and> isl (check_valid k value))"
proof (induction c arbitrary: acc)
  case Nil
  show ?case by simp
next
  case (Cons p c)
  obtain key val where p: "p = (key, val)" by (cases p)
  show ?case
  proof (cases "model key")
    case None
    then show ?thesis using Cons.IH p by auto
  next
    case (Some k)
    show ?thesis
    proof (cases "check_valid k val")
      case (Inl m)
      then have "isl (check_valid k val)" by simp
      then have "\<exists>key' val' k'. (key', val') \<in> set (p # c) \<and> model key' = Some k' \<and>
                   isl (check_valid k' val')"
        using Some p by (intro exI[of _ key] exI[of _ val] exI[of _ k]) simp
      then show ?thesis using Some p Inl by simp
    next
      case (Inr v)
      then show ?thesis using Some p Cons.IH by fastforce
    qed
  qed
qed

lemma coerce_sections_error:
  "coerce_sections model acc c = Inl ex \<Longrightarrow> \<exists>msg. ex = AttributeError msg"
  by (induction model acc c rule: coerce_sections.induct) (auto split: option.splits sum.splits)

lemma coerce_section_failure:
  assumes "validate" "coerce_sections (get_configs_model deps (database s)) [] c = Inl ex"
  shows "coerce_and_check_model deps s i c validate = (Inl ex, s)"
  using assms by (simp add: coerce_and_check_model_def)

lemma coerce_rejected:
  assumes "validate" "coerce_sections (get_configs_model deps (database s)) [] c = Inr final"
    "validation_db_get deps (database s) i = Some v" "external_validation v"
    "await_future deps (validation_task deps s i final) = Inl ex"
  shows "fst (coerce_and_check_model deps s i c validate) = Inl ex"
proof -
  obtain r s' where a: "acknowledge_config_change deps s i final = (r, s')"
    by (cases "acknowledge_config_change deps s i final")
  then have "r = Inl ex" using acknowledge_result[of deps s i final] assms(5) by simp
  then show ?thesis using assms a by (simp add: coerce_and_check_model_def)
qed

lemma put_config_failure:
  assumes "fst (coerce_and_check_model deps s (cfg_id cfg) (config cfg) validate) = Inl ex"
  shows "put_config deps s cfg validate =
           (Inl ex, snd (coerce_and_check_model deps s (cfg_id cfg) (config cfg) validate))"
proof -
  obtain r s' where c: "coerce_and_check_model deps s (cfg_id cfg) (config cfg) validate = (r, s')"
    by (cases "coerce_and_check_model deps s (cfg_id cfg) (config cfg) validate")
  then show ?thesis using assms by (simp add: put_config_def)
qed

lemma patch_config_failure:
  assumes "fst (coerce_and_check_model deps s (cfg_id cfg)
             (dict_union (current_config deps s (cfg_id cfg)) (config cfg)) True) = Inl ex"
  shows "patch_config deps s cfg =
           (Inl ex, snd (coerce_and_check_model deps s (cfg_id cfg)
             (dict_union (current_config deps s (cfg_id cfg)) (config cfg)) True))"
proof -
  let ?m = "dict_union (current_config deps s (cfg_id cfg)) (config cfg)"
  obtain r s' where c: "coerce_and_check_model deps s (cfg_id cfg) ?m True = (r, s')"
    by (cases "coerce_and_check_model deps s (cfg_id cfg) ?m True")
  then show ?thesis using assms by (simp add: patch_config_def)
qed

lemma write_config_tasks: "submitted_tasks (snd (write_config deps s e)) = submitted_tasks s"
  by (simp add: write_config_def split: sum.splits prod.splits)

lemma put_config_tasks:
  "submitted_tasks (snd (put_config deps s cfg validate)) =
     submitted_tasks (snd (coerce_and_check_model deps s (cfg_id cfg) (config cfg) validate))"
proof -
  obtain r s' where c: "coerce_and_check_model deps s (cfg_id cfg) (config cfg) validate = (r, s')"
    by (cases "coerce_and_check_model deps s (cfg_id cfg) (config cfg) validate")
  show ?thesis using c
    by (cases r) (simp_all add: put_config_def write_config_tasks split: option.splits)
qed

lemma coerce_external:
  assumes "coerce_sections (get_configs_model deps (database s)) [] c = Inr final"
    "validation_db_get deps (database s) i = Some v" "external_validation v"
  shows "coerce_and_check_model deps s i c True =
           ((case await_future deps (validation_task deps s i final) of
               Inl ex \<Rightarrow> Inl ex | Inr _ \<Rightarrow> Inr final),
            s\<lparr>submitted_tasks := submitted_tasks s @ [validation_task deps s i final]\<rparr>)"
  using assms
  by (simp add: coerce_and_check_model_def acknowledge_config_change_def Let_def split: sum.splits)

lemma map_of_dict_set: "map_of (dict_set d k v) = (map_of d)(k \<mapsto> v)"
  by (induction d) auto

lemma dict_union_lookup:
  assumes "distinct (map fst right)"
  shows "map_of (dict_union left right) k =
           (case map_of right k of Some v \<Rightarrow> Some v | None \<Rightarrow> map_of left k)"
  using assms unfolding dict_union_def
proof (induction right arbitrary: left)
  case Nil
  show ?case by simp
next
  case (Cons p right)
  obtain k' v' where p: "p = (k', v')" by (cases p)
  have none: "map_of right k' = None"
    using Cons.prems p by (simp add: map_of_eq_None_iff)
  have "map_of (fold (\<lambda>(k, v) d. dict_set d k v) right (dict_set left k' v')) k =
          (case map_of right k of Some v \<Rightarrow> Some v | None \<Rightarrow> map_of (dict_set left k' v') k)"
    using Cons.IH[of "dict_set left k' v'"] Cons.prems by simp
  then show ?case using p none by (auto simp: map_of_dict_set split: option.splits)
qed

text \<open>
  C2. When validation fails, \<^verbatim>\<open>put_config\<close> and \<^verbatim>\<open>patch_config\<close> raise, the database is
  as it was and no event has been emitted. Validation fails when \<^verbatim>\<open>check_valid\<close> raises
  for a section the model knows (the caller gets an \<^verbatim>\<open>AttributeError\<close> naming the section;
  nothing at all has changed), or when the config id is validated externally and the future
  of the validation task ends with an exception (the caller gets that exception).
\<close>

theorem validation_failure_writes_nothing:
  "(validate \<and> (\<exists>key val k. (key, val) \<in> set (config cfg) \<and>
        get_configs_model deps (database s) key = Some k \<and> isl (check_valid k val)) \<longrightarrow>
      (\<exists>msg. put_config deps s cfg validate = (Inl (AttributeError msg), s))) \<and>
   (validate \<and> coerce_sections (get_configs_model deps (database s)) [] (config cfg) = Inr final \<and>
    validation_db_get deps (database s) (cfg_id cfg) = Some v \<and> external_validation v \<and>
    await_future deps (validation_task deps s (cfg_id cfg) final) = Inl ex \<longrightarrow>
      fst (put_config deps s cfg validate) = Inl ex \<and>
      database (snd (put_config deps s cfg validate)) = database s \<and>
      emitted_events (snd (put_config deps s cfg validate)) = emitted_events s) \<and>
   ((\<exists>key val k. (key, val) \<in> set (dict_union (current_config deps s (cfg_id cfg)) (config cfg)) \<and>
        get_configs_model deps (database s) key = Some k \<and> isl (check_valid k val)) \<longrightarrow>
      (\<exists>msg. patch_config deps s cfg = (Inl (AttributeError msg), s))) \<and>
   (coerce_sections (get_configs_model deps (database s)) []
        (dict_union (current_config deps s (cfg_id cfg)) (config cfg)) = Inr merged \<and>
    validation_db_get deps (database s) (cfg_id cfg) = Some v \<and> external_validation v \<and>
    await_future deps (validation_task deps s (cfg_id cfg) merged) = Inl ex \<longrightarrow>
      fst (patch_config deps s cfg) = Inl ex \<and>
      database (snd (patch_config deps s cfg)) = database s \<and>
      emitted_events (snd (patch_config deps s cfg)) = emitted_events s)"
proof -
  have sect: "\<exists>msg. coerce_and_check_model deps s i c True = (Inl (AttributeError msg), s)"
    if "\<exists>key val k. (key, val) \<in> set c \<and>
          get_configs_model deps (database s) key = Some k \<and> isl (check_valid k val)" for i c
  proof -
    have "isl (coerce_sections (get_configs_model deps (database s)) [] c)"
      using that by (simp add: coerce_sections_raises)
    then obtain e where e: "coerce_sections (get_configs_model deps (database s)) [] c = Inl e"
      by (cases "coerce_sections (get_configs_model deps (database s)) [] c") auto
    then obtain msg where "e = AttributeError msg" using coerce_sections_error by blast
    then show ?thesis using e coerce_section_failure[of True deps s c e i] by auto
  qed
  have put1: "\<exists>msg. put_config deps s cfg validate = (Inl (AttributeError msg), s)"
    if va: "validate" and h: "\<exists>key val k. (key, val) \<in> set (config cfg) \<and>
          get_configs_model deps (database s) key = Some k \<and> isl (check_valid k val)"
  proof -
    obtain msg where m: "coerce_and_check_model deps s (cfg_id cfg) (config cfg) True =
        (Inl (AttributeError msg), s)"
      using sect[OF h] by blast
    then have "put_config deps s cfg validate = (Inl (AttributeError msg), s)"
      using va put_config_failure[of deps s cfg validate "AttributeError msg"] by simp
    then show ?thesis by blast
  qed
  have put2: "fst (put_config deps s cfg validate) = Inl ex \<and>
      database (snd (put_config deps s cfg validate)) = database s \<and>
      emitted_events (snd (put_config deps s cfg validate)) = emitted_events s"
    if "validate" "coerce_sections (get_configs_model deps (database s)) [] (config cfg) = Inr final"
       "validation_db_get deps (database s) (cfg_id cfg) = Some v" "external_validation v"
       "await_future deps (validation_task deps s (cfg_id cfg) final) = Inl ex"
  proof -
    have "fst (coerce_and_check_model deps s (cfg_id cfg) (config cfg) validate) = Inl ex"
      using that by (rule coerce_rejected)
    then show ?thesis
      using put_config_failure[of deps s cfg validate ex]
            coerce_state[of deps s "cfg_id cfg" "config cfg" validate] by simp
  qed
  let ?m = "dict_union (current_config deps s (cfg_id cfg)) (config cfg)"
  have patch1: "\<exists>msg. patch_config deps s cfg = (Inl (AttributeError msg), s)"
    if h: "\<exists>key val k. (key, val) \<in> set ?m \<and>
          get_configs_model deps (database s) key = Some k \<and> isl (check_valid k val)"
  proof -
    obtain msg where m: "coerce_and_check_model deps s (cfg_id cfg) ?m True =
        (Inl (AttributeError msg), s)"
      using sect[OF h] by blast
    then have "patch_config deps s cfg = (Inl (AttributeError msg), s)"
      using patch_config_failure[of deps s cfg "AttributeError msg"] by simp
    then show ?thesis by blast
  qed
  have patch2: "fst (patch_config deps s cfg) = Inl ex \<and>
      database (snd (patch_config deps s cfg)) = database s \<and>
      emitted_events (snd (patch_config deps s cfg)) = emitted_events s"
    if "coerce_sections (get_configs_model deps (database s)) [] ?m = Inr merged"
       "validation_db_get deps (database s) (cfg_id cfg) = Some v" "external_validation v"
       "await_future deps (validation_task deps s (cfg_id cfg) merged) = Inl ex"
  proof -
    have "fst (coerce_and_check_model deps s (cfg_id cfg) ?m True) = Inl ex"
      using that coerce_rejected[of True deps s ?m merged "cfg_id cfg" v ex] by simp
    then show ?thesis
      using patch_config_failure[of deps s cfg ex]
            coerce_state[of deps s "cfg_id cfg" ?m True] by simp
  qed
  show ?thesis using put1 put2 patch1 patch2 by blast
qed

theorem validation_failure_writes_nothing_witness:
  "put_config sample_deps sample_service
     \<lparr>cfg_id = ''c1'', config = [(''b'', JStr ''x'')], revision = Some ''i''\<rparr> True
     = (Inl (AttributeError ''Error validating section b: Expected type int32''), sample_service) \<and>
   patch_config sample_deps sample_service
     \<lparr>cfg_id = ''c1'', config = [(''b'', JStr ''x'')], revision = Some ''i''\<rparr>
     = (Inl (AttributeError ''Error validating section b: Expected type int32''), sample_service) \<and>
   await_future sample_deps (validation_task sample_deps sample_service ''c1'' [(''b'', JInt 13)])
     = Inl (OtherException ''bad value'') \<and>
   fst (put_config sample_deps sample_service
     \<lparr>cfg_id = ''c1'', config = [(''b'', JInt 13)], revision = Some ''i''\<rparr> True)
     = Inl (OtherException ''bad value'') \<and>
   database (snd (put_config sample_deps sample_service
     \<lparr>cfg_id = ''c1'', config = [(''b'', JInt 13)], revision = Some ''i''\<rparr> True)) = sample_store \<and>
   emitted_events (snd (put_config sample_deps sample_service
     \<lparr>cfg_id = ''c1'', config = [(''b'', JInt 13)], revision = Some ''i''\<rparr> True)) = [] \<and>
   fst (patch_config sample_deps sample_service
     \<lparr>cfg_id = ''c1'', config = [(''b'', JInt 13)], revision = Some ''i''\<rparr>)
     = Inl (OtherException ''bad value'') \<and>
   database (snd (patch_config sample_deps sample_service
     \<lparr>cfg_id = ''c1'', config = [(''b'', JInt 13)], revision = Some ''i''\<rparr>)) = sample_store \<and>
   emitted_events (snd (patch_config sample_deps sample_service
     \<lparr>cfg_id = ''c1'', config = [(''b'', JInt 13)], revision = Some ''i''\<rparr>)) = []"
  using validation_failure_writes_nothing
          [where validate = True and deps = sample_deps and s = sample_service
             and cfg = "\<lparr>cfg_id = ''c1'', config = [(''b'', JInt 13)], revision = Some ''i''\<rparr>"
             and final = "[(''b'', JInt 13)]"
             and merged = "[(''a'', JDict [(''x'', JInt 1)]), (''b'', JInt 13)]"
             and v = "\<lparr>validation_id = ''c1'', external_validation = True\<rparr>"
             and ex = "OtherException ''bad value''"]
  by (simp add: sample_defs Let_def)

lemma coerce_success_state:
  assumes "coerce_and_check_model deps s i c v = (r, s')"
  shows "database s' = database s \<and> emitted_events s' = emitted_events s"
  using coerce_state[of deps s i c v] assms by simp

text \<open>
  C3, as the code has it. \<^verbatim>\<open>put_config\<close> validates before it compares, so the comparison
  is reached only once validation has passed (\<^verbatim>\<open>coerce_and_check_model\<close> has returned the
  coerced config, having touched neither the database nor the bus). Then: if a config with
  this id is stored and equal to the submitted one, the stored entity is returned, nothing is
  written and no event is emitted. Otherwise the coerced config is handed to the store with
  the submitted revision: when the store accepts the write, the stored entity is returned and
  exactly one \<^verbatim>\<open>ConfigUpdated\<close> event with its id and its new revision is appended to the
  bus; when the store raises (a stale revision), the exception reaches the caller, nothing
  is written and nothing is emitted.
\<close>

theorem put_config_noop_or_write:
  assumes "coerce_and_check_model deps s (cfg_id cfg) (config cfg) validate = (Inr coerced, s')"
  shows "database s' = database s \<and> emitted_events s' = emitted_events s \<and>
    (\<forall>existing. cfg_db_get deps (database s) (cfg_id cfg) = Some existing \<and>
                py_eq (JDict (config existing)) (JDict (config cfg)) \<longrightarrow>
       put_config deps s cfg validate = (Inr existing, s')) \<and>
    (cfg_db_get deps (database s) (cfg_id cfg) = None \<or>
     (\<exists>existing. cfg_db_get deps (database s) (cfg_id cfg) = Some existing \<and>
                 \<not> py_eq (JDict (config existing)) (JDict (config cfg))) \<longrightarrow>
       (\<forall>result db'.
          cfg_db_update deps (database s)
            \<lparr>cfg_id = cfg_id cfg, config = coerced, revision = revision cfg\<rparr> = Inr (result, db') \<longrightarrow>
          put_config deps s cfg validate =
            (Inr result, s'\<lparr>database := db',
                            emitted_events := emitted_events s @ [config_updated result]\<rparr>)) \<and>
       (\<forall>ex.
          cfg_db_update deps (database s)
            \<lparr>cfg_id = cfg_id cfg, config = coerced, revision = revision cfg\<rparr> = Inl ex \<longrightarrow>
          put_config deps s cfg validate = (Inl ex, s')))"
proof -
  have st: "database s' = database s" "emitted_events s' = emitted_events s"
    using coerce_success_state[OF assms] by simp_all
  let ?e = "\<lparr>cfg_id = cfg_id cfg, config = coerced, revision = revision cfg\<rparr>"
  have noop: "put_config deps s cfg validate = (Inr existing, s')"
    if "cfg_db_get deps (database s) (cfg_id cfg) = Some existing"
       "py_eq (JDict (config existing)) (JDict (config cfg))" for existing
    using that assms st by (simp add: put_config_def)
  have wr: "put_config deps s cfg validate = write_config deps s' ?e"
    if "cfg_db_get deps (database s) (cfg_id cfg) = None \<or>
        (\<exists>existing. cfg_db_get deps (database s) (cfg_id cfg) = Some existing \<and>
                 \<not> py_eq (JDict (config existing)) (JDict (config cfg)))"
    using that assms st by (auto simp: put_config_def)
  have ok: "write_config deps s' ?e =
              (Inr result, s'\<lparr>database := db',
                              emitted_events := emitted_events s @ [config_updated result]\<rparr>)"
    if "cfg_db_update deps (database s) ?e = Inr (result, db')" for result db'
    using that st by (simp add: write_config_def)
  have bad: "write_config deps s' ?e = (Inl ex, s')"
    if "cfg_db_update deps (database s) ?e = Inl ex" for ex
    using that st by (simp add: write_config_def)
  show ?thesis using st noop wr ok bad by presburger
qed

theorem put_config_noop_or_write_witness:
  "put_config sample_deps sample_service
     \<lparr>cfg_id = ''c1'', config = [(''b'', JInt 1), (''a'', JDict [(''x'', JInt 1)])], revision = None\<rparr> True
     = (Inr \<lparr>cfg_id = ''c1'', config = [(''a'', JDict [(''x'', JInt 1)]), (''b'', JInt 1)],
              revision = Some ''i''\<rparr>,
        sample_service\<lparr>submitted_tasks :=
          [validation_task sample_deps sample_service ''c1''
             [(''b'', JInt 1), (''a'', JDict [(''x'', JInt 1)])]]\<rparr>) \<and>
   fst (put_config sample_deps sample_service
     \<lparr>cfg_id = ''c1'', config = [(''b'', JInt 2)], revision = Some ''i''\<rparr> True)
     = Inr \<lparr>cfg_id = ''c1'', config = [(''b'', JInt 2)], revision = Some ''ii''\<rparr> \<and>
   emitted_events (snd (put_config sample_deps sample_service
     \<lparr>cfg_id = ''c1'', config = [(''b'', JInt 2)], revision = Some ''i''\<rparr> True))
     = [\<lparr>message_type = ConfigUpdated,
         event_data = [(''id'', JStr ''c1''), (''revision'', JStr ''ii'')]\<rparr>] \<and>
   cfg_db_get sample_deps (database (snd (put_config sample_deps sample_service
     \<lparr>cfg_id = ''c1'', config = [(''b'', JInt 2)], revision = Some ''i''\<rparr> True))) ''c1''
     = Some \<lparr>cfg_id = ''c1'', config = [(''b'', JInt 2)], revision = Some ''ii''\<rparr> \<and>
   put_config sample_deps sample_service
     \<lparr>cfg_id = ''c1'', config = [(''b'', JInt 2)], revision = Some ''stale''\<rparr> True
     = (Inl (OptimisticLockingFailed ''c1''),
        sample_service\<lparr>submitted_tasks :=
          [validation_task sample_deps sample_service ''c1'' [(''b'', JInt 2)]]\<rparr>)"
proof -
  have h1: "coerce_and_check_model sample_deps sample_service
      (cfg_id \<lparr>cfg_id = ''c1'', config = [(''b'', JInt 1), (''a'', JDict [(''x'', JInt 1)])], revision = None\<rparr>)
      (config \<lparr>cfg_id = ''c1'', config = [(''b'', JInt 1), (''a'', JDict [(''x'', JInt 1)])], revision = None\<rparr>)
      True
    = (Inr [(''b'', JInt 1), (''a'', JDict [(''x'', JInt 1)])],
       sample_service\<lparr>submitted_tasks :=
          [validation_task sample_deps sample_service ''c1''
             [(''b'', JInt 1), (''a'', JDict [(''x'', JInt 1)])]]\<rparr>)"
    by (simp add: sample_defs Let_def)
  have h2: "coerce_and_check_model sample_deps sample_service
      (cfg_id \<lparr>cfg_id = ''c1'', config = [(''b'', JInt 2)], revision = Some ''i''\<rparr>)
      (config \<lparr>cfg_id = ''c1'', config = [(''b'', JInt 2)], revision = Some ''i''\<rparr>) True
    = (Inr [(''b'', JInt 2)],
       sample_service\<lparr>submitted_tasks :=
          [validation_task sample_deps sample_service ''c1'' [(''b'', JInt 2)]]\<rparr>)"
    by (simp add: sample_defs Let_def)
  have h3: "coerce_and_check_model sample_deps sample_service
      (cfg_id \<lparr>cfg_id = ''c1'', config = [(''b'', JInt 2)], revision = Some ''stale''\<rparr>)
      (config \<lparr>cfg_id = ''c1'', config = [(''b'', JInt 2)], revision = Some ''stale''\<rparr>) True
    = (Inr [(''b'', JInt 2)],
       sample_service\<lparr>submitted_tasks :=
          [validation_task sample_deps sample_service ''c1'' [(''b'', JInt 2)]]\<rparr>)"
    by (simp add: sample_defs Let_def)
  show ?thesis
    using put_config_noop_or_write [OF h1] put_config_noop_or_write [OF h2]
          put_config_noop_or_write [OF h3]
    by (simp add: sample_defs Let_def)
qed

text \<open>
  Not every call of \<^verbatim>\<open>put_config\<close> ends in one of the two ways. A put of the config that is
  stored, at its revision, raises when the worker rejects it: the stored entity is not
  returned. And a put of a changed config at a stale revision raises
  \<^verbatim>\<open>OptimisticLockingFailed\<close>: nothing is written and no event is emitted.
\<close>

theorem put_config_every_call_counterexample:
  "cfg_db_get rejecting_deps (database sample_service) ''c1''
     = Some \<lparr>cfg_id = ''c1'', config = [(''a'', JDict [(''x'', JInt 1)]), (''b'', JInt 1)],
              revision = Some ''i''\<rparr> \<and>
   py_eq (JDict [(''a'', JDict [(''x'', JInt 1)]), (''b'', JInt 1)])
         (JDict [(''a'', JDict [(''x'', JInt 1)]), (''b'', JInt 1)]) \<and>
   fst (put_config rejecting_deps sample_service
     \<lparr>cfg_id = ''c1'', config = [(''a'', JDict [(''x'', JInt 1)]), (''b'', JInt 1)],
      revision = Some ''i''\<rparr> True)
     = Inl (OtherException ''rejected'') \<and>
   \<not> py_eq (JDict [(''a'', JDict [(''x'', JInt 1)]), (''b'', JInt 1)]) (JDict [(''b'', JInt 2)]) \<and>
   fst (put_config sample_deps sample_service
     \<lparr>cfg_id = ''c1'', config = [(''b'', JInt 2)], revision = Some ''stale''\<rparr> True)
     = Inl (OptimisticLockingFailed ''c1'') \<and>
   database (snd (put_config sample_deps sample_service
     \<lparr>cfg_id = ''c1'', config = [(''b'', JInt 2)], revision = Some ''stale''\<rparr> True))
     = sample_store \<and>
   emitted_events (snd (put_config sample_deps sample_service
     \<lparr>cfg_id = ''c1'', config = [(''b'', JInt 2)], revision = Some ''stale''\<rparr> True)) = []"
  by (simp add: rejecting_deps_def sample_defs Let_def)

text \<open>
  C4, as the code has it. For a put with validation enabled, of a config whose sections pass
  coercion and whose id has a validation record with \<^verbatim>\<open>external_validation\<close>, one task is
  handed to the queue: its name is \<^verbatim>\<open>validate_config\<close>, its attributes are
  \<^verbatim>\<open>{"config_id": id}\<close>, its payload is \<^verbatim>\<open>{"task": "validate_config", "config": coerced}\<close>
  and its timeout is 30 seconds. The put awaits the task's future: an exception of the future
  is the put's error, a result lets the put go on with the coerced config.
\<close>

theorem put_config_external_validation:
  assumes "validation_db_get deps (database s) (cfg_id cfg) = Some v" "external_validation v"
    "coerce_sections (get_configs_model deps (database s)) [] (config cfg) = Inr final"
  shows "submitted_tasks (snd (put_config deps s cfg True)) =
           submitted_tasks s @ [validation_task deps s (cfg_id cfg) final] \<and>
         task_name (validation_task deps s (cfg_id cfg) final) = ''validate_config'' \<and>
         attrs (validation_task deps s (cfg_id cfg) final) = [(''config_id'', cfg_id cfg)] \<and>
         task_data (validation_task deps s (cfg_id cfg) final) =
           [(''task'', JStr ''validate_config''), (''config'', JDict final)] \<and>
         timeout_seconds (validation_task deps s (cfg_id cfg) final) = 30 \<and>
         (\<forall>ex. await_future deps (validation_task deps s (cfg_id cfg) final) = Inl ex \<longrightarrow>
            fst (put_config deps s cfg True) = Inl ex) \<and>
         (\<forall>r. await_future deps (validation_task deps s (cfg_id cfg) final) = Inr r \<longrightarrow>
            fst (coerce_and_check_model deps s (cfg_id cfg) (config cfg) True) = Inr final)"
proof -
  let ?t = "validation_task deps s (cfg_id cfg) final"
  have c: "coerce_and_check_model deps s (cfg_id cfg) (config cfg) True =
           ((case await_future deps ?t of Inl ex \<Rightarrow> Inl ex | Inr _ \<Rightarrow> Inr final),
            s\<lparr>submitted_tasks := submitted_tasks s @ [?t]\<rparr>)"
    using assms by (intro coerce_external)
  have t: "submitted_tasks (snd (put_config deps s cfg True)) = submitted_tasks s @ [?t]"
    using c by (simp add: put_config_tasks)
  have f: "fst (put_config deps s cfg True) = Inl ex" if "await_future deps ?t = Inl ex" for ex
    using that c put_config_failure[of deps s cfg True ex] by simp
  have g: "fst (coerce_and_check_model deps s (cfg_id cfg) (config cfg) True) = Inr final"
    if "await_future deps ?t = Inr r" for r
    using that c by simp
  show ?thesis using t f g by (simp add: validation_task_def validate_config_def)
qed

theorem put_config_external_validation_witness:
  "validation_db_get sample_deps (database sample_service) ''c1''
     = Some \<lparr>validation_id = ''c1'', external_validation = True\<rparr> \<and>
   submitted_tasks (snd (put_config sample_deps sample_service
     \<lparr>cfg_id = ''c1'', config = [(''b'', JInt 13)], revision = Some ''i''\<rparr> True))
     = [\<lparr>task_id = ''i'', task_name = ''validate_config'', attrs = [(''config_id'', ''c1'')],
         task_data = [(''task'', JStr ''validate_config''), (''config'', JDict [(''b'', JInt 13)])],
         timeout_seconds = 30\<rparr>] \<and>
   fst (put_config sample_deps sample_service
     \<lparr>cfg_id = ''c1'', config = [(''b'', JInt 13)], revision = Some ''i''\<rparr> True)
     = Inl (OtherException ''bad value'')"
proof -
  have h1: "validation_db_get sample_deps (database sample_service)
      (cfg_id \<lparr>cfg_id = ''c1'', config = [(''b'', JInt 13)], revision = Some ''i''\<rparr>)
     = Some \<lparr>validation_id = ''c1'', external_validation = True\<rparr>"
    by (simp add: sample_defs)
  have h2: "external_validation \<lparr>validation_id = ''c1'', external_validation = True\<rparr>" by simp
  have h3: "coerce_sections (get_configs_model sample_deps (database sample_service)) []
      (config \<lparr>cfg_id = ''c1'', config = [(''b'', JInt 13)], revision = Some ''i''\<rparr>)
     = Inr [(''b'', JInt 13)]"
    by (simp add: sample_defs)
  show ?thesis
    using put_config_external_validation [OF h1 h2 h3]
    by (simp add: sample_defs Let_def)
qed

text \<open>
  The payload of the task is not \<^verbatim>\<open>{config_id, config}\<close>: the config id travels in the
  attributes, the payload names the task. And a put whose section fails coercion hands no
  task to the queue at all.
\<close>

theorem put_config_task_payload_counterexample:
  "length (submitted_tasks (snd (put_config sample_deps sample_service
     \<lparr>cfg_id = ''c1'', config = [(''b'', JInt 13)], revision = Some ''i''\<rparr> True))) = 1 \<and>
   \<not> py_eq
     (JDict (task_data (hd (submitted_tasks (snd (put_config sample_deps sample_service
        \<lparr>cfg_id = ''c1'', config = [(''b'', JInt 13)], revision = Some ''i''\<rparr> True))))))
     (JDict [(''config_id'', JStr ''c1''), (''config'', JDict [(''b'', JInt 13)])]) \<and>
   submitted_tasks (snd (put_config sample_deps sample_service
     \<lparr>cfg_id = ''c1'', config = [(''b'', JStr ''x'')], revision = Some ''i''\<rparr> True)) = []"
  by (simp add: sample_defs Let_def)

text \<open>
  C1, as the code has it. \<^verbatim>\<open>patch_config\<close> merges with \<^verbatim>\<open>{**current_config, **cfg.config}\<close>:
  a key of the patch takes the value of the patch, whatever it is (a dict replaces the stored
  dict as a whole, a falsy value replaces the stored value), every other key keeps its stored
  value. The merged config is what \<^verbatim>\<open>coerce_and_check_model\<close> validates, and what it returns
  is written at the revision of the stored entity, with one \<^verbatim>\<open>ConfigUpdated\<close> event.
\<close>

theorem patch_config_shallow_merge:
  "(distinct (map fst (config cfg)) \<longrightarrow>
      map_of (dict_union (current_config deps s (cfg_id cfg)) (config cfg)) k =
        (case map_of (config cfg) k of
           Some v \<Rightarrow> Some v
         | None \<Rightarrow> map_of (current_config deps s (cfg_id cfg)) k)) \<and>
   (\<forall>coerced s' result db'.
      coerce_and_check_model deps s (cfg_id cfg)
        (dict_union (current_config deps s (cfg_id cfg)) (config cfg)) True = (Inr coerced, s') \<and>
      cfg_db_update deps (database s)
        \<lparr>cfg_id = cfg_id cfg, config = coerced,
         revision = current_revision deps s (cfg_id cfg)\<rparr> = Inr (result, db') \<longrightarrow>
      patch_config deps s cfg =
        (Inr result, s'\<lparr>database := db',
                        emitted_events := emitted_events s @ [config_updated result]\<rparr>))"
proof -
  let ?m = "dict_union (current_config deps s (cfg_id cfg)) (config cfg)"
  let ?e = "\<lambda>coerced. \<lparr>cfg_id = cfg_id cfg, config = coerced,
                         revision = current_revision deps s (cfg_id cfg)\<rparr>"
  have w: "patch_config deps s cfg =
        (Inr result, s'\<lparr>database := db',
                        emitted_events := emitted_events s @ [config_updated result]\<rparr>)"
    if c: "coerce_and_check_model deps s (cfg_id cfg) ?m True = (Inr coerced, s')"
    and u: "cfg_db_update deps (database s) (?e coerced) = Inr (result, db')"
    for coerced s' result db'
  proof -
    have "database s' = database s" "emitted_events s' = emitted_events s"
      using coerce_success_state[OF c] by simp_all
    then show ?thesis using c u by (simp add: patch_config_def write_config_def)
  qed
  show ?thesis using w dict_union_lookup[of "config cfg" "current_config deps s (cfg_id cfg)" k]
    by blast
qed

theorem patch_config_shallow_merge_witness:
  "distinct (map fst [(''a'', JDict [(''y'', JInt 2)]), (''b'', JInt 0)]) \<and>
   map_of (dict_union (current_config sample_deps sample_service ''c1'')
                      [(''a'', JDict [(''y'', JInt 2)]), (''b'', JInt 0)]) ''a''
     = Some (JDict [(''y'', JInt 2)]) \<and>
   fst (patch_config sample_deps sample_service
     \<lparr>cfg_id = ''c1'', config = [(''a'', JDict [(''y'', JInt 2)]), (''b'', JInt 0)], revision = None\<rparr>)
     = Inr \<lparr>cfg_id = ''c1'', config = [(''a'', JDict [(''y'', JInt 2)]), (''b'', JInt 0)],
             revision = Some ''ii''\<rparr> \<and>
   emitted_events (snd (patch_config sample_deps sample_service
     \<lparr>cfg_id = ''c1'', config = [(''a'', JDict [(''y'', JInt 2)]), (''b'', JInt 0)], revision = None\<rparr>))
     = [\<lparr>message_type = ConfigUpdated,
         event_data = [(''id'', JStr ''c1''), (''revision'', JStr ''ii'')]\<rparr>]"
  using patch_config_shallow_merge
          [where deps = sample_deps and s = sample_service and k = "''a''"
             and cfg = "\<lparr>cfg_id = ''c1'', config = [(''a'', JDict [(''y'', JInt 2)]), (''b'', JInt 0)],
                         revision = None\<rparr>"]
  by (simp add: sample_defs Let_def)

text \<open>
  The merge of \<^verbatim>\<open>patch_config\<close> is not \<open>deep_merge\<close>: patching the stored
  \<^verbatim>\<open>{"a": {"x": 1}, "b": 1}\<close> with \<^verbatim>\<open>{"a": {"y": 2}, "b": 0}\<close> writes the patch as it is,
  where \<open>deep_merge\<close> gives \<^verbatim>\<open>{"a": {"x": 1, "y": 2}, "b": 1}\<close>.
\<close>

theorem patch_config_deep_merge_counterexample:
  "fst (patch_config sample_deps sample_service
     \<lparr>cfg_id = ''c1'', config = [(''a'', JDict [(''y'', JInt 2)]), (''b'', JInt 0)], revision = None\<rparr>)
     = Inr \<lparr>cfg_id = ''c1'', config = [(''a'', JDict [(''y'', JInt 2)]), (''b'', JInt 0)],
             revision = Some ''ii''\<rparr> \<and>
   cfg_db_get sample_deps (database (snd (patch_config sample_deps sample_service
     \<lparr>cfg_id = ''c1'', config = [(''a'', JDict [(''y'', JInt 2)]), (''b'', JInt 0)], revision = None\<rparr>))) ''c1''
     = Some \<lparr>cfg_id = ''c1'', config = [(''a'', JDict [(''y'', JInt 2)]), (''b'', JInt 0)],
              revision = Some ''ii''\<rparr> \<and>
   deep_merge (current_config sample_deps sample_service ''c1'')
              [(''a'', JDict [(''y'', JInt 2)]), (''b'', JInt 0)]
     = [(''a'', JDict [(''x'', JInt 1), (''y'', JInt 2)]), (''b'', JInt 1)] \<and>
   \<not> py_eq (JDict [(''a'', JDict [(''y'', JInt 2)]), (''b'', JInt 0)])
           (JDict (deep_merge (current_config sample_deps sample_service ''c1'')
                              [(''a'', JDict [(''y'', JInt 2)]), (''b'', JInt 0)]))"
  by (simp add: sample_defs Let_def deep_merge.simps union_keys_def)

subsection \<open>config_yaml\<close>

text \<open>
  C10. For a config id with no stored entity \<^verbatim>\<open>config_yaml\<close> returns \<^verbatim>\<open>None\<close>, whatever the
  flag \<^verbatim>\<open>revision\<close>. For a stored entity without a revision the result with
  \<^verbatim>\<open>revision=True\<close> is the rendered sections alone, the same as with \<^verbatim>\<open>revision=False\<close>: no
  \<^verbatim>\<open>_revision\<close> trailer. (With a non-empty revision the trailer is appended.)
\<close>

theorem config_yaml_none_or_no_trailer:
  "(cfg_db_get deps (database s) i = None \<longrightarrow> config_yaml deps s i with_rev = None) \<and>
   (\<forall>cfg. cfg_db_get deps (database s) i = Some cfg \<and> revision cfg = None \<longrightarrow>
      config_yaml deps s i True =
        Some (yaml_sections (get_configs_model deps (database s)) (yaml_dump deps) 0 (config cfg) []) \<and>
      config_yaml deps s i True = config_yaml deps s i False) \<and>
   (\<forall>cfg r. cfg_db_get deps (database s) i = Some cfg \<and> revision cfg = Some r \<and> r \<noteq> [] \<longrightarrow>
      config_yaml deps s i True =
        Some (yaml_sections (get_configs_model deps (database s)) (yaml_dump deps) 0 (config cfg) []
              @ revision_trailer r))"
  by (simp add: config_yaml_def get_config_def Let_def)

theorem config_yaml_none_or_no_trailer_witness:
  "cfg_db_get sample_deps (database sample_service) ''c9'' = None \<and>
   config_yaml sample_deps sample_service ''c9'' True = None \<and>
   config_yaml sample_deps sample_service ''c9'' False = None \<and>
   cfg_db_get sample_deps (database unrevised_service) ''c3''
     = Some \<lparr>cfg_id = ''c3'', config = [(''b'', JInt 1)], revision = None\<rparr> \<and>
   config_yaml sample_deps unrevised_service ''c3'' True = Some (''b: ...'' @ [CHR 0x0A]) \<and>
   config_yaml sample_deps unrevised_service ''c3'' False = Some (''b: ...'' @ [CHR 0x0A]) \<and>
   config_yaml sample_deps sample_service ''c1'' True
     = Some (''a: ...'' @ [CHR 0x0A] @ ''b: ...'' @ [CHR 0x0A] @ revision_trailer ''i'')"
  using config_yaml_none_or_no_trailer [of sample_deps sample_service "''c9''" True]
        config_yaml_none_or_no_trailer [of sample_deps sample_service "''c9''" False]
        config_yaml_none_or_no_trailer [of sample_deps unrevised_service "''c3''" True]
        config_yaml_none_or_no_trailer [of sample_deps sample_service "''c1''" True]
  by (simp add: sample_defs unrevised_service_def config_yaml_def get_config_def Let_def)

subsection \<open>The core config handler and the supervisor\<close>

lemma py_eq_str: "py_eq x (JStr c) \<longleftrightarrow> x = JStr c"
  by (cases x) auto

lemma event_loop_other:
  "\<forall>e \<in> set events. \<not> is_core_config C e \<Longrightarrow> event_loop C exit_fn events n = (Inr (), n)"
  by (induction events) auto

lemma event_loop_returning:
  "event_loop C (\<lambda>_. Inr ()) events n = (Inr (), n + length (filter (is_core_config C) events))"
  by (induction events arbitrary: n) auto

lemma event_loop_raising:
  assumes "\<forall>x \<in> set pre. \<not> is_core_config C x" "is_core_config C e" "exit_fn () = Inl ex"
  shows "event_loop C exit_fn (pre @ e # post) n = (Inl ex, Suc n)"
  using assms by (induction pre) auto

text \<open>
  C8. The handler sees the \<^verbatim>\<open>ConfigUpdated\<close> events of the bus. An event is a core-config
  update when its \<^verbatim>\<open>id\<close> is the core-config id. As long as no such event has arrived,
  \<open>exit_fn\<close> has not been called, whatever it is. With an \<open>exit_fn\<close> that returns, it is
  called once for each core-config update. With an \<open>exit_fn\<close> that raises, the first
  core-config update calls it and its exception ends the handler. The default \<open>exit_fn\<close>
  raises \<^verbatim>\<open>RestartService\<close>. In \<^verbatim>\<open>run\<close>, a \<^verbatim>\<open>run_process\<close> that ends with
  \<^verbatim>\<open>RestartService\<close> is followed by the next call of \<^verbatim>\<open>run_process\<close>; one that returns ends
  the loop. (How the exception travels from the handler's task through the event loop to
  \<^verbatim>\<open>run\<close> is the work of asyncio and is not modelled.)
\<close>

theorem core_config_update_restarts:
  "(is_core_config C e \<longleftrightarrow> dict_get (event_data e) ''id'' = JStr C) \<and>
   ((\<forall>x \<in> set (subscribed [ConfigUpdated] emitted). \<not> is_core_config C x) \<longrightarrow>
      handle_events C exit_fn emitted = (Inr (), 0)) \<and>
   handle_events C (\<lambda>_. Inr ()) emitted =
     (Inr (), length (filter (is_core_config C) (subscribed [ConfigUpdated] emitted))) \<and>
   (subscribed [ConfigUpdated] emitted = pre @ e # post \<and>
    (\<forall>x \<in> set pre. \<not> is_core_config C x) \<and> is_core_config C e \<and> exit_fn () = Inl ex \<longrightarrow>
      handle_events C exit_fn emitted = (Inl ex, 1)) \<and>
   default_exit_fn () = Inl (RestartService ''resotocore config changed.'') \<and>
   (run_process n = Inl (RestartService reason) \<longrightarrow>
      run_loop run_process n = run_loop run_process (Suc n)) \<and>
   (run_process n = Inr () \<longrightarrow> run_loop run_process n = Some (Inr (), Suc n))"
proof -
  have a: "is_core_config C e \<longleftrightarrow> dict_get (event_data e) ''id'' = JStr C"
    by (simp add: is_core_config_def py_eq_str)
  have b: "handle_events C exit_fn emitted = (Inr (), 0)"
    if "\<forall>x \<in> set (subscribed [ConfigUpdated] emitted). \<not> is_core_config C x"
    using that by (simp add: handle_events_def event_loop_other)
  have c: "handle_events C (\<lambda>_. Inr ()) emitted =
     (Inr (), length (filter (is_core_config C) (subscribed [ConfigUpdated] emitted)))"
    using event_loop_returning[of C "subscribed [ConfigUpdated] emitted" 0]
    by (simp add: handle_events_def)
  have d: "handle_events C exit_fn emitted = (Inl ex, 1)"
    if "subscribed [ConfigUpdated] emitted = pre @ e # post"
       "\<forall>x \<in> set pre. \<not> is_core_config C x" "is_core_config C e" "exit_fn () = Inl ex"
    using that by (simp add: handle_events_def event_loop_raising)
  have e: "default_exit_fn () = Inl (RestartService ''resotocore config changed.'')"
    by (simp add: default_exit_fn_def restart_service_def)
  have f: "run_loop run_process n = run_loop run_process (Suc n)"
    if "run_process n = Inl (RestartService reason)"
    using that by (subst run_loop.simps) simp
  have g: "run_loop run_process n = Some (Inr (), Suc n)" if "run_process n = Inr ()"
    using that by (subst run_loop.simps) simp
  show ?thesis using a b c d e f g by blast
qed

theorem core_config_update_restarts_witness:
  "handle_events ''resoto.core'' default_exit_fn sample_events
     = (Inl (RestartService ''resotocore config changed.''), 1) \<and>
   handle_events ''resoto.core'' (\<lambda>_. Inr ()) sample_events = (Inr (), 2) \<and>
   handle_events ''resoto.core'' default_exit_fn (take 2 sample_events) = (Inr (), 0) \<and>
   run (\<lambda>n. if n = 0 then fst (handle_events ''resoto.core'' default_exit_fn sample_events)
            else Inr ())
     = Some (Inr (), 2)"
  using core_config_update_restarts
          [where C = "''resoto.core''" and exit_fn = default_exit_fn and emitted = sample_events
             and pre = "[hd sample_events]" and e = "sample_events ! 2"
             and post = "[sample_events ! 3]"
             and ex = "RestartService ''resotocore config changed.''"
             and n = 0 and reason = "''resotocore config changed.''"
             and run_process = "\<lambda>n. if n = 0 then fst (handle_events ''resoto.core'' default_exit_fn sample_events)
            else Inr ()"]
  by (simp add: sample_events_def handle_events_def subscribed_def is_core_config_def dict_get_def
        default_exit_fn_def restart_service_def run_def run_loop.simps)

end
